theory Spec2Isabelle
  imports Main "HOL-Library.Sublist"
begin

section \<open>Python strings\<close>

text \<open>
  A Python \<open>str\<close> is a sequence of Unicode code points. A code point is modelled
  as a natural number and a string as a list of them, so that the line breaks and the
  white space beyond Latin-1 that \<open>str.splitlines\<close> and \<open>str.strip\<close> know are
  in the model. \<open>py\<close> reads an ASCII literal of the source.
\<close>

type_synonym pychar = nat
type_synonym pystr = "pychar list"

definition py :: "string \<Rightarrow> pystr" where
  "py s = map of_char s"

definition dquote :: pychar where "dquote = 34"
definition squote :: pychar where "squote = 39"
definition colon :: pychar where "colon = 58"
definition backtick :: pychar where "backtick = 96"

text \<open>
  The characters \<open>str.strip()\<close> removes (those for which \<open>str.isspace\<close> holds)
  and the characters at which \<open>str.splitlines()\<close> breaks, as CPython lists them.
\<close>

definition is_space :: "pychar \<Rightarrow> bool" where
  "is_space c \<longleftrightarrow>
     (9 \<le> c \<and> c \<le> 13) \<or> (28 \<le> c \<and> c \<le> 32) \<or> c = 133 \<or> c = 160 \<or> c = 5760 \<or>
     (8192 \<le> c \<and> c \<le> 8202) \<or> c = 8232 \<or> c = 8233 \<or> c = 8239 \<or> c = 8287 \<or> c = 12288"

definition is_linebreak :: "pychar \<Rightarrow> bool" where
  "is_linebreak c \<longleftrightarrow>
     (10 \<le> c \<and> c \<le> 13) \<or> (28 \<le> c \<and> c \<le> 30) \<or> c = 133 \<or> c = 8232 \<or> c = 8233"

text \<open>\<open>s.strip()\<close> and \<open>s.strip(chars)\<close>: every leading and every trailing
  character of the given kind is removed.\<close>

definition strip_where :: "(pychar \<Rightarrow> bool) \<Rightarrow> pystr \<Rightarrow> pystr" where
  "strip_where P s = rev (dropWhile P (rev (dropWhile P s)))"

definition strip :: "pystr \<Rightarrow> pystr" where
  "strip s = strip_where is_space s"

definition strip_chars :: "pystr \<Rightarrow> pystr \<Rightarrow> pystr" where
  "strip_chars chars s = strip_where (\<lambda>c. c \<in> set chars) s"

text \<open>
  \<open>s.splitlines()\<close>: the text up to the next line break is a line; a carriage
  return followed by a line feed is one break; a break at the very end opens no
  further line.
\<close>

fun drop_eol :: "pystr \<Rightarrow> pystr" where
  "drop_eol [] = []"
| "drop_eol [c] = []"
| "drop_eol (c # d # cs) = (if c = 13 \<and> d = 10 then cs else d # cs)"

function splitlines :: "pystr \<Rightarrow> pystr list" where
  "splitlines s =
     (if s = [] then []
      else takeWhile (\<lambda>c. \<not> is_linebreak c) s
             # splitlines (drop_eol (dropWhile (\<lambda>c. \<not> is_linebreak c) s)))"
  by pat_completeness auto
termination
proof (relation "measure length")
  show "wf (measure length)" by simp
next
  fix s :: pystr
  assume ne: "s \<noteq> []"
  let ?r = "dropWhile (\<lambda>c. \<not> is_linebreak c) s"
  show "(drop_eol ?r, s) \<in> measure length"
  proof (cases "?r = []")
    case True
    then have "length (drop_eol ?r) = 0" by (simp only: drop_eol.simps list.size)
    moreover from ne have "0 < length s" by simp
    ultimately show ?thesis by (simp only: in_measure)
  next
    case False
    then have "length (drop_eol ?r) < length ?r"
      by (cases ?r rule: drop_eol.cases) auto
    also have "length ?r \<le> length s" by (rule length_dropWhile_le)
    finally show ?thesis by simp
  qed
qed

declare splitlines.simps [simp del]

text \<open>\<open>sub in s\<close> on strings, \<open>s.startswith(p)\<close> is \<^const>\<open>prefix\<close>.\<close>

fun contains :: "pystr \<Rightarrow> pystr \<Rightarrow> bool" where
  "contains sub [] = (sub = [])"
| "contains sub (c # cs) = (prefix sub (c # cs) \<or> contains sub cs)"

text \<open>\<open>s.split(sep, 1)\<close> for a separator of one character: at most one split,
  at the first occurrence.\<close>

fun split1 :: "pychar \<Rightarrow> pystr \<Rightarrow> pystr list" where
  "split1 sep [] = [[]]"
| "split1 sep (c # cs) =
     (if c = sep then [[], cs]
      else (case split1 sep cs of
              [] \<Rightarrow> [[c]]
            | h # t \<Rightarrow> (c # h) # t))"

section \<open>Errors\<close>

datatype py_error = ValueError | OSError | IndexError

section \<open>The header parser\<close>

text \<open>
  \<open>_parse_frontmatter\<close>. The dictionary is a map. The loop over \<open>lines[1:]\<close> is
  \<open>frontmatter_loop\<close>: \<open>break\<close> returns the dictionary, \<open>continue\<close> goes on with
  the rest, and the unpacking \<open>key, value = line.split(":", 1)\<close> raises
  \<open>ValueError\<close> unless the split has exactly two parts.
\<close>

type_synonym pydict = "pystr \<rightharpoonup> pystr"

fun frontmatter_loop :: "pydict \<Rightarrow> pystr list \<Rightarrow> py_error + pydict" where
  "frontmatter_loop frontmatter [] = Inr frontmatter"
| "frontmatter_loop frontmatter (line # rest) =
     (if strip line = py ''---'' then Inr frontmatter
      else if colon \<notin> set line then frontmatter_loop frontmatter rest
      else (case split1 colon line of
              [key, val] \<Rightarrow>
                frontmatter_loop
                  (frontmatter(strip key \<mapsto> strip_chars [squote] (strip_chars [dquote] (strip val))))
                  rest
            | _ \<Rightarrow> Inl ValueError))"

definition parse_frontmatter :: "pystr \<Rightarrow> py_error + pydict" where
  "parse_frontmatter text =
     (case splitlines text of
        [] \<Rightarrow> Inr Map.empty
      | first # rest \<Rightarrow>
          if strip first \<noteq> py ''---'' then Inr Map.empty
          else frontmatter_loop Map.empty rest)"

text \<open>\<open>str(n)\<close> for a length: the decimal digits.\<close>

fun str_nat :: "nat \<Rightarrow> pystr" where
  "str_nat n = (if n < 10 then [48 + n] else str_nat (n div 10) @ [48 + n mod 10])"

declare str_nat.simps [simp del]

section \<open>Backtick-quoted tokens\<close>

text \<open>
  \<open>re.findall\<close> with the pattern \<open>`(pre[^`]+)`\<close>, where \<open>pre\<close> is a literal
  without a backtick (empty for the roles, \<open>references/\<close> for the paths). The scan
  goes from left to right. A match starts at a backtick that is followed by \<open>pre\<close>,
  then by at least one character other than a backtick (a line break is allowed),
  then by a backtick; the group is the text between the two backticks, and the scan
  goes on after the closing one. Where there is no match at a position, the scan
  goes on one character further.
\<close>

definition match_at :: "pystr \<Rightarrow> pystr \<Rightarrow> (pystr \<times> pystr) option" where
  "match_at pre rest =
     (let body = drop (length pre) rest;
          tok = takeWhile (\<lambda>x. x \<noteq> backtick) body;
          after = dropWhile (\<lambda>x. x \<noteq> backtick) body
      in if prefix pre rest \<and> tok \<noteq> [] \<and> after \<noteq> [] then Some (pre @ tok, tl after)
         else None)"

function findall_bt :: "pystr \<Rightarrow> pystr \<Rightarrow> pystr list" where
  "findall_bt pre [] = []"
| "findall_bt pre (c # rest) =
     (case (if c = backtick then match_at pre rest else None) of
        Some (g, rest') \<Rightarrow> g # findall_bt pre rest'
      | None \<Rightarrow> findall_bt pre rest)"
  by pat_completeness auto
termination
proof (relation "measure (\<lambda>(pre, s). length s)", goal_cases)
  case 1
  show ?case by simp
next
  case (2 pre c rest)
  show ?case by simp
next
  case (3 pre c rest m g rest')
  then have "match_at pre rest = Some (g, rest')"
    by (simp split: if_splits)
  then have "rest' = tl (dropWhile (\<lambda>x. x \<noteq> backtick) (drop (length pre) rest))"
    by (simp add: match_at_def Let_def split: if_splits)
  then have "length rest' \<le> length (dropWhile (\<lambda>x. x \<noteq> backtick) (drop (length pre) rest))"
    by simp
  also have "\<dots> \<le> length (drop (length pre) rest)"
    by (rule length_dropWhile_le)
  also have "\<dots> \<le> length rest"
    by simp
  finally show ?case by simp
qed

section \<open>Paths and the file system\<close>

text \<open>
  \<open>pathlib\<close> and the file system behind it are not part of the script. The model
  takes them as a parameter: a type \<open>'p\<close> of path objects with the operations the
  script calls. \<open>joinpath\<close> is the operator \<open>/\<close>, \<open>name\<close> the attribute
  \<open>.name\<close>. \<open>exists\<close>, \<open>is_dir\<close> and \<open>read_text\<close> may raise:
  \<open>Path.exists\<close> and \<open>Path.is_dir\<close> answer \<open>False\<close> for a path that is not
  there and pass on every other \<open>OSError\<close> (a name too long for the file system, a
  directory that may not be searched). \<open>set_iter\<close> is the order in which a
  \<open>set\<close> built from a list is iterated, which Python leaves open.
  \<open>script_root\<close> is \<open>pathlib.Path(__file__).resolve().parents[1]\<close> and
  \<open>run_validator\<close> the exit status of the \<open>agentskills validate\<close> process
  (\<open>subprocess.run\<close> raises when the process cannot be started).
\<close>

record 'p env =
  joinpath :: "'p \<Rightarrow> pystr \<Rightarrow> 'p"
  name :: "'p \<Rightarrow> pystr"
  exists :: "'p \<Rightarrow> py_error + bool"
  is_dir :: "'p \<Rightarrow> py_error + bool"
  read_text :: "'p \<Rightarrow> py_error + pystr"
  set_iter :: "pystr list \<Rightarrow> pystr list"
  script_root :: "py_error + 'p"
  run_validator :: "'p \<Rightarrow> py_error + int"


section \<open>The rule checker\<close>

subsection \<open>Messages\<close>

definition msg_missing :: pystr where
  "msg_missing = py ''SKILL.md is missing.''"

definition msg_too_long :: "nat \<Rightarrow> pystr" where
  "msg_too_long n = py ''SKILL.md should be 500 lines or fewer (found '' @ str_nat n @ py '').''"

definition msg_deprecated :: pystr where
  "msg_deprecated =
     py ''SKILL.md references utilities/common-roles/, but the directory is common-roles/.''"

definition msg_name :: "pystr \<Rightarrow> pystr \<Rightarrow> pystr" where
  "msg_name skill_name folder =
     py ''Frontmatter name '' @ [squote] @ skill_name @ [squote]
       @ py '' must match folder name '' @ [squote] @ folder @ [squote] @ py ''.''"

definition msg_no_dir :: pystr where
  "msg_no_dir = py ''Missing common-roles/ directory.''"

definition msg_role :: "pystr \<Rightarrow> pystr" where
  "msg_role role = py ''Role listed in SKILL.md missing: common-roles/'' @ role @ py ''.md''"

definition msg_ref :: "pystr \<Rightarrow> pystr" where
  "msg_ref ref = py ''Referenced file not found: '' @ ref"

definition msg_howto :: pystr where
  "msg_howto = py ''SKILL.md references delegate.how-to.md, but the file does not exist.''"

subsection \<open>The loops of \<open>_manual_lint\<close>\<close>

text \<open>
  The loop that collects the roles, with its two variables \<open>in_roles_table\<close> and
  \<open>roles\<close>. The test for the section heading comes first and ends with
  \<open>continue\<close>; only then a line that starts with \<open>###\<close> and a blank ends the loop.
\<close>

fun collect_roles :: "bool \<Rightarrow> pystr list \<Rightarrow> pystr list \<Rightarrow> pystr list" where
  "collect_roles in_roles_table roles [] = roles"
| "collect_roles in_roles_table roles (line # rest) =
     (if strip line = py ''### Available Roles'' then collect_roles True roles rest
      else if in_roles_table \<and> prefix (py ''### '') line then roles
      else if in_roles_table then collect_roles in_roles_table (roles @ findall_bt [] line) rest
      else collect_roles in_roles_table roles rest)"

text \<open>The two loops that probe the file system. A probe that raises ends the loop
  and the function with it.\<close>

fun role_loop ::
  "'p env \<Rightarrow> 'p \<Rightarrow> pystr list \<Rightarrow> pystr list \<Rightarrow> py_error + pystr list" where
  "role_loop E common_roles_dir errors [] = Inr errors"
| "role_loop E common_roles_dir errors (role # rest) =
     (let role_file = joinpath E common_roles_dir (role @ py ''.md'')
      in case exists E role_file of
           Inl e \<Rightarrow> Inl e
         | Inr found \<Rightarrow>
             role_loop E common_roles_dir
               (if \<not> found then errors @ [msg_role role] else errors) rest)"

fun ref_loop ::
  "'p env \<Rightarrow> 'p \<Rightarrow> pystr list \<Rightarrow> pystr list \<Rightarrow> py_error + pystr list" where
  "ref_loop E repo_root errors [] = Inr errors"
| "ref_loop E repo_root errors (ref # rest) =
     (let ref_path = joinpath E repo_root ref
      in case exists E ref_path of
           Inl e \<Rightarrow> Inl e
         | Inr found \<Rightarrow>
             ref_loop E repo_root
               (if \<not> found then errors @ [msg_ref ref] else errors) rest)"

subsection \<open>\<open>_manual_lint\<close> and \<open>main\<close>\<close>

definition manual_lint :: "'p env \<Rightarrow> 'p \<Rightarrow> py_error + pystr list" where
  "manual_lint E repo_root =
     (let errors = [];
          skill_path = joinpath E repo_root (py ''SKILL.md'')
      in case exists E skill_path of
           Inl e \<Rightarrow> Inl e
         | Inr found \<Rightarrow>
      if \<not> found then Inr [msg_missing]
      else
       (case read_text E skill_path of
          Inl e \<Rightarrow> Inl e
        | Inr text \<Rightarrow>
       (let lines = splitlines text;
            errors = (if length lines > 500
                      then errors @ [msg_too_long (length lines)] else errors);
            errors = (if contains (py ''utilities/common-roles'') text
                      then errors @ [msg_deprecated] else errors)
        in case parse_frontmatter text of
             Inl e \<Rightarrow> Inl e
           | Inr frontmatter \<Rightarrow>
       (let skill_name = frontmatter (py ''name'');
            errors =
              (case skill_name of
                 None \<Rightarrow> errors
               | Some n \<Rightarrow>
                   if n \<noteq> [] \<and> n \<noteq> name E repo_root
                   then errors @ [msg_name n (name E repo_root)] else errors);
            common_roles_dir = joinpath E repo_root (py ''common-roles'')
        in case is_dir E common_roles_dir of
             Inl e \<Rightarrow> Inl e
           | Inr found_dir \<Rightarrow>
       (let errors = (if \<not> found_dir then errors @ [msg_no_dir] else errors);
            roles = collect_roles False [] lines
        in case role_loop E common_roles_dir errors roles of
             Inl e \<Rightarrow> Inl e
           | Inr errors \<Rightarrow>
       (case ref_loop E repo_root errors
               (set_iter E (findall_bt (py ''references/'') text)) of
          Inl e \<Rightarrow> Inl e
        | Inr errors \<Rightarrow>
       (if contains (py ''delegate.how-to.md'') text
        then (case exists E (joinpath E repo_root (py ''delegate.how-to.md'')) of
                Inl e \<Rightarrow> Inl e
              | Inr found_howto \<Rightarrow>
                  Inr (if \<not> found_howto then errors @ [msg_howto] else errors))
        else Inr errors)))))))"

text \<open>
  \<open>main\<close> returns the lines written to the error stream and the value it returns.
  The validator runs first; whatever raises ends \<open>main\<close>.
\<close>

definition main :: "'p env \<Rightarrow> py_error + (pystr list \<times> int)" where
  "main E =
     (case script_root E of
        Inl e \<Rightarrow> Inl e
      | Inr repo_root \<Rightarrow>
         (case run_validator E repo_root of
            Inl e \<Rightarrow> Inl e
          | Inr returncode \<Rightarrow>
             (case manual_lint E repo_root of
                Inl e \<Rightarrow> Inl e
              | Inr manual_errors \<Rightarrow>
                  Inr ((if manual_errors \<noteq> []
                        then py ''Manual lint failures:'' # map (\<lambda>error. py ''  - '' @ error) manual_errors
                        else []),
                       (if returncode \<noteq> 0 \<or> manual_errors \<noteq> [] then 1 else 0)))))"

text \<open>
  \<open>raise SystemExit(main())\<close>: the process ends with the value \<open>main\<close> returned, and
  with status 1 when an exception left \<open>main\<close> uncaught.
\<close>

definition exit_status :: "'p env \<Rightarrow> int" where
  "exit_status E = (case main E of Inl e \<Rightarrow> 1 | Inr (out, code) \<Rightarrow> code)"

section \<open>Reading the results\<close>

text \<open>\<open>_parse_frontmatter(text).get(key)\<close>.\<close>

definition header_get :: "py_error + pydict \<Rightarrow> pystr \<Rightarrow> pystr option" where
  "header_get r key = (case r of Inl e \<Rightarrow> None | Inr frontmatter \<Rightarrow> frontmatter key)"





text \<open>
  What one pass of the header loop does with a line, written with the first
  separator found by \<^const>\<open>takeWhile\<close> and \<^const>\<open>dropWhile\<close>: the key is the
  trimmed text before it; the value is the trimmed text after it, without its leading
  and trailing double quotes and then without its leading and trailing single quotes.
\<close>

definition header_pair :: "pystr \<Rightarrow> pydict \<Rightarrow> pydict" where
  "header_pair line m =
     (if colon \<in> set line
      then m(strip (takeWhile (\<lambda>c. c \<noteq> colon) line) \<mapsto>
               strip_chars [squote] (strip_chars [dquote]
                 (strip (tl (dropWhile (\<lambda>c. c \<noteq> colon) line)))))
      else m)"

section \<open>When the rule checker returns\<close>




section \<open>The report, check by check\<close>








section \<open>The specification's wording\<close>

text \<open>The first non-empty line of a text, of which the specification of the header
  parser speaks.\<close>

definition first_nonempty_line :: "pystr \<Rightarrow> pystr option" where
  "first_nonempty_line text =
     (case filter (\<lambda>l. l \<noteq> []) (splitlines text) of [] \<Rightarrow> None | l # ls \<Rightarrow> Some l)"

text \<open>One layer of matching single or double quotes removed, in the specification's
  words: a text of at least two characters that begins and ends with the same quote
  character loses that pair; any other text is left as it is.\<close>

definition strip_one_layer :: "pystr \<Rightarrow> pystr" where
  "strip_one_layer s =
     (if 2 \<le> length s \<and> hd s = last s \<and> (hd s = dquote \<or> hd s = squote)
      then butlast (tl s) else s)"


section \<open>Example inputs\<close>

text \<open>
  A file tree for the examples: a path is the list of its components, the document
  root is \<open>skill\<close>, the manifest has the given text when it is among the files.
\<close>

definition lf :: pystr where "lf = [10]"

definition skill_root :: "pystr list" where
  "skill_root = [py ''skill'']"

definition tree_env :: "pystr \<Rightarrow> pystr list list \<Rightarrow> pystr list list \<Rightarrow> int \<Rightarrow> pystr list env" where
  "tree_env text files dirs returncode =
     \<lparr> joinpath = (\<lambda>p s. p @ [s]),
       name = (\<lambda>p. if p = [] then [] else last p),
       exists = (\<lambda>p. Inr (p \<in> set files \<or> p \<in> set dirs)),
       is_dir = (\<lambda>p. Inr (p \<in> set dirs)),
       read_text = (\<lambda>p. if p = [py ''skill'', py ''SKILL.md''] \<and> p \<in> set files
                          then Inr text else Inl OSError),
       set_iter = remdups,
       script_root = Inr skill_root,
       run_validator = (\<lambda>p. Inr returncode) \<rparr>"

text \<open>The same tree with paths that cannot be probed: \<open>exists\<close> raises for them
  (a directory on the way that may not be searched, a name that is too long).\<close>

definition deny :: "pystr list list \<Rightarrow> pystr list env \<Rightarrow> pystr list env" where
  "deny paths E = E\<lparr>exists := (\<lambda>p. if p \<in> set paths then Inl OSError else exists E p)\<rparr>"

definition ex_indented_delimiter :: pystr where
  "ex_indented_delimiter = py '' ---'' @ lf @ py ''name: x''"

definition ex_blank_first_line :: pystr where
  "ex_blank_first_line = lf @ py ''---'' @ lf @ py ''name: x''"

definition ex_header :: pystr where
  "ex_header = py ''  ---  '' @ lf @ py ''no separator'' @ lf @ py ''name : x:y''
                 @ lf @ py ''---'' @ lf @ py ''other: z''"

definition ex_quoting :: pystr where
  "ex_quoting = py ''---'' @ lf @ py ''name: '' @ [dquote, dquote] @ py ''foo'' @ [dquote, dquote]
                  @ lf @ [squote] @ py ''k'' @ [squote] @ py '': v''"

definition skill_md :: "pystr list" where
  "skill_md = [py ''skill'', py ''SKILL.md'']"

definition roles_dir :: "pystr list" where
  "roles_dir = [py ''skill'', py ''common-roles'']"

definition role_md :: "pystr \<Rightarrow> pystr list" where
  "role_md role = [py ''skill'', py ''common-roles'', role @ py ''.md'']"

definition ex_clean :: pystr where
  "ex_clean = py ''---'' @ lf @ py ''name: skill'' @ lf @ py ''---'' @ lf
                @ py ''### Available Roles'' @ lf @ [backtick] @ py ''alpha'' @ [backtick] @ lf
                @ py ''### Other''"













section \<open>Facts about the string operations\<close>

lemma split1_at: "sep \<notin> set k \<Longrightarrow> split1 sep (k @ sep # v) = [k, v]"
  by (induction k) auto

lemma split1_in:
  "sep \<in> set s \<Longrightarrow>
     split1 sep s = [takeWhile (\<lambda>c. c \<noteq> sep) s, tl (dropWhile (\<lambda>c. c \<noteq> sep) s)]"
  by (induction s) auto

lemma in_set_dropWhile: "x \<in> set s \<Longrightarrow> \<not> P x \<Longrightarrow> x \<in> set (dropWhile P s)"
  by (induction s) auto

lemma in_set_strip_where: "x \<in> set s \<Longrightarrow> \<not> P x \<Longrightarrow> x \<in> set (strip_where P s)"
  by (simp add: strip_where_def in_set_dropWhile)

lemma colon_not_space: "\<not> is_space colon"
  by (simp add: is_space_def colon_def)

lemma delimiter_has_no_colon: "strip line = py ''---'' \<Longrightarrow> colon \<notin> set line"
proof
  assume d: "strip line = py ''---''" and c: "colon \<in> set line"
  from c have "colon \<in> set (strip line)"
    unfolding strip_def by (rule in_set_strip_where) (rule colon_not_space)
  with d show False by (simp add: py_def colon_def)
qed

section \<open>The header parser: results\<close>

lemma frontmatter_loop_total: "\<exists>m. frontmatter_loop fm lines = Inr m"
  by (induction lines arbitrary: fm) (auto simp: split1_in)

lemma parse_frontmatter_total: "\<exists>m. parse_frontmatter text = Inr m"
  by (auto simp: parse_frontmatter_def frontmatter_loop_total split: list.splits)

lemma frontmatter_loop_fold:
  "frontmatter_loop fm lines =
     Inr (fold header_pair (takeWhile (\<lambda>l. strip l \<noteq> py ''---'') lines) fm)"
  by (induction lines arbitrary: fm) (auto simp: split1_in header_pair_def)

text \<open>
  C9. The header parser never fails: for every text it returns a mapping, and so does
  its loop from every dictionary and every list of lines (an unterminated block and
  the empty text among them); a line without the separator that is not the delimiter
  changes nothing, the loop goes on with the next line.
\<close>

theorem parse_frontmatter_never_fails:
  "(\<exists>m. parse_frontmatter text = Inr m)
   \<and> (\<exists>m. frontmatter_loop fm lines = Inr m)
   \<and> (colon \<notin> set line \<and> strip line \<noteq> py ''---''
        \<longrightarrow> frontmatter_loop fm (line # rest) = frontmatter_loop fm rest)"
proof (intro conjI impI)
  show "\<exists>m. parse_frontmatter text = Inr m"
    by (rule parse_frontmatter_total)
  show "\<exists>m. frontmatter_loop fm lines = Inr m"
    by (rule frontmatter_loop_total)
next
  assume "colon \<notin> set line \<and> strip line \<noteq> py ''---''"
  then show "frontmatter_loop fm (line # rest) = frontmatter_loop fm rest"
    by simp
qed

theorem parse_frontmatter_never_fails_witness:
  "(\<exists>m. parse_frontmatter ex_header = Inr m)
   \<and> (\<exists>m. frontmatter_loop Map.empty [py ''no separator'', py ''a: b''] = Inr m)
   \<and> colon \<notin> set (py ''no separator'') \<and> strip (py ''no separator'') \<noteq> py ''---''
   \<and> frontmatter_loop Map.empty [py ''no separator'', py ''a: b'']
       = frontmatter_loop Map.empty [py ''a: b'']"
proof -
  have h: "colon \<notin> set (py ''no separator'') \<and> strip (py ''no separator'') \<noteq> py ''---''"
    by (simp add: py_def colon_def strip_def strip_where_def is_space_def)
  from parse_frontmatter_never_fails
         [of ex_header Map.empty "[py ''no separator'', py ''a: b'']"
             "py ''no separator''" "[py ''a: b'']"] h
  show ?thesis by blast
qed

lemmas ev = py_def lf_def colon_def dquote_def squote_def backtick_def strip_def strip_where_def
  strip_chars_def is_space_def is_linebreak_def splitlines.simps

text \<open>
  C3, as the code has it. The parser looks at the first line, empty or not, and trims
  it before the comparison: when the text has no line, or its first line trimmed is
  not the delimiter, the result is the empty mapping; otherwise the result is built
  from the lines that follow, up to the first one that trimmed is the delimiter or to
  the end, one pass of \<^const>\<open>header_pair\<close> for each.
\<close>

theorem parse_frontmatter_first_line:
  "parse_frontmatter text =
     (case splitlines text of
        [] \<Rightarrow> Inr Map.empty
      | first # rest \<Rightarrow>
          if strip first = py ''---''
          then Inr (fold header_pair (takeWhile (\<lambda>l. strip l \<noteq> py ''---'') rest) Map.empty)
          else Inr Map.empty)"
  by (simp add: parse_frontmatter_def frontmatter_loop_fold split: list.splits)

theorem parse_frontmatter_first_line_witness:
  "header_get (parse_frontmatter ex_header) (py ''name'') = Some (py ''x:y'')
   \<and> header_get (parse_frontmatter ex_header) (py ''other'') = None
   \<and> parse_frontmatter [] = Inr Map.empty
   \<and> parse_frontmatter (py ''name: x'') = Inr Map.empty"
  using parse_frontmatter_first_line [of ex_header] parse_frontmatter_first_line [of "[]"]
    parse_frontmatter_first_line [of "py ''name: x''"]
  by (simp add: ex_header_def header_get_def header_pair_def ev)

text \<open>
  C3 as stated fails in both directions. The first non-empty line of
  \<^const>\<open>ex_indented_delimiter\<close> is the delimiter after a blank, which is not exactly
  the delimiter, and the parser still reads the name. The first non-empty line of
  \<^const>\<open>ex_blank_first_line\<close> is exactly the delimiter, but it is the second line, and
  the parser returns the empty mapping without reading the pair that follows.
\<close>

theorem first_nonempty_line_counterexample:
  "first_nonempty_line ex_indented_delimiter = Some (py '' ---'')
   \<and> py '' ---'' \<noteq> py ''---''
   \<and> header_get (parse_frontmatter ex_indented_delimiter) (py ''name'') = Some (py ''x'')
   \<and> first_nonempty_line ex_blank_first_line = Some (py ''---'')
   \<and> parse_frontmatter ex_blank_first_line = Inr Map.empty"
  by (simp add: first_nonempty_line_def ex_indented_delimiter_def ex_blank_first_line_def
      parse_frontmatter_def header_get_def ev)

text \<open>
  C4, as the code has it. A line of the header block with a separator is split at the
  first separator only; the key is the trimmed text before it, quotes and all; the
  value is the trimmed text after it, from which \<open>strip('"')\<close> removes every leading
  and trailing double quote and then \<open>strip("'")\<close> every leading and trailing single
  quote. A value written with one pair of double or of single quotes around \<open>foo\<close>
  parses to \<open>foo\<close>.
\<close>

theorem header_line_split_trim_unquote:
  "(colon \<notin> set k \<longrightarrow>
      frontmatter_loop fm ((k @ colon # v) # rest)
        = frontmatter_loop
            (fm(strip k \<mapsto> strip_chars [squote] (strip_chars [dquote] (strip v)))) rest)
   \<and> header_get (parse_frontmatter (py ''---'' @ lf @ py ''name: '' @ [dquote] @ py ''foo'' @ [dquote]))
        (py ''name'') = Some (py ''foo'')
   \<and> header_get (parse_frontmatter (py ''---'' @ lf @ py ''name: '' @ [squote] @ py ''foo'' @ [squote]))
        (py ''name'') = Some (py ''foo'')"
proof (intro conjI impI)
  assume k: "colon \<notin> set k"
  have "strip (k @ colon # v) \<noteq> py ''---''"
    using delimiter_has_no_colon [of "k @ colon # v"] by auto
  with k show "frontmatter_loop fm ((k @ colon # v) # rest)
        = frontmatter_loop
            (fm(strip k \<mapsto> strip_chars [squote] (strip_chars [dquote] (strip v)))) rest"
    by (simp add: split1_at)
next
  show "header_get (parse_frontmatter (py ''---'' @ lf @ py ''name: '' @ [dquote] @ py ''foo'' @ [dquote]))
        (py ''name'') = Some (py ''foo'')"
    by (simp add: parse_frontmatter_def header_get_def ev)
  show "header_get (parse_frontmatter (py ''---'' @ lf @ py ''name: '' @ [squote] @ py ''foo'' @ [squote]))
        (py ''name'') = Some (py ''foo'')"
    by (simp add: parse_frontmatter_def header_get_def ev)
qed

theorem header_line_split_trim_unquote_witness:
  "colon \<notin> set (py ''name '')
   \<and> header_get (frontmatter_loop Map.empty [py ''name '' @ colon # py '' x:y '']) (py ''name'')
       = Some (py ''x:y'')"
proof -
  have h: "colon \<notin> set (py ''name '')" by (simp add: ev)
  from header_line_split_trim_unquote [of "py ''name ''" Map.empty "py '' x:y ''" "[]"] h
  show ?thesis by (simp add: header_get_def ev)
qed

text \<open>
  C4 as stated fails on \<^const>\<open>ex_quoting\<close>. Its value has two pairs of double quotes
  around \<open>foo\<close>: one layer removed would leave one pair, the parser removes both. Its
  second key is written in single quotes: the parser keeps them, so the key without
  quotes is not in the mapping.
\<close>

theorem strip_one_layer_counterexample:
  "header_get (parse_frontmatter ex_quoting) (py ''name'') = Some (py ''foo'')
   \<and> strip_one_layer (strip ([dquote, dquote] @ py ''foo'' @ [dquote, dquote]))
       = [dquote] @ py ''foo'' @ [dquote]
   \<and> header_get (parse_frontmatter ex_quoting) (strip_one_layer ([squote] @ py ''k'' @ [squote])) = None
   \<and> header_get (parse_frontmatter ex_quoting) ([squote] @ py ''k'' @ [squote]) = Some (py ''v'')"
  by (simp add: ex_quoting_def parse_frontmatter_def header_get_def strip_one_layer_def ev)

section \<open>The rule checker: results\<close>





































lemmas lint_ev = manual_lint_def Let_def tree_env_def deny_def skill_root_def skill_md_def
  roles_dir_def role_md_def parse_frontmatter_def match_at_def msg_missing_def msg_too_long_def
  msg_deprecated_def msg_name_def msg_no_dir_def msg_role_def msg_ref_def msg_howto_def



lemma lint_clean:
  "manual_lint (tree_env ex_clean [skill_md, role_md (py ''alpha'')] [roles_dir] rc) skill_root
     = Inr []"
  by (simp add: ex_clean_def lint_ev ev)

text \<open>
  C1. The exit status is 0 exactly when the document root was found, the validator
  ended with status 0 and the manual report is empty; in every other case, an
  exception included, it is 1.
\<close>

theorem exit_status_zero_iff:
  "exit_status E =
     (if (\<exists>repo_root. script_root E = Inr repo_root \<and> run_validator E repo_root = Inr 0
            \<and> manual_lint E repo_root = Inr [])
      then 0 else 1)"
  by (auto simp: exit_status_def main_def split: sum.splits)

theorem exit_status_zero_iff_witness:
  "exit_status (tree_env ex_clean [skill_md, role_md (py ''alpha'')] [roles_dir] 0) = 0
   \<and> exit_status (tree_env ex_clean [skill_md, role_md (py ''alpha'')] [roles_dir] 2) = 1
   \<and> exit_status (tree_env ex_clean [skill_md] [roles_dir] 0) = 1"
proof -
  have a: "manual_lint (tree_env ex_clean [skill_md] [roles_dir] 0) skill_root
             = Inr [msg_role (py ''alpha'')]"
    by (simp add: ex_clean_def lint_ev ev)
  have s: "script_root (tree_env t files dirs rc) = Inr skill_root"
    and v: "run_validator (tree_env t files dirs rc) p = Inr rc"
    for t files dirs rc p
    by (simp_all add: tree_env_def)
  show ?thesis
    using exit_status_zero_iff [of "tree_env ex_clean [skill_md, role_md (py ''alpha'')] [roles_dir] 0"]
      exit_status_zero_iff [of "tree_env ex_clean [skill_md, role_md (py ''alpha'')] [roles_dir] 2"]
      exit_status_zero_iff [of "tree_env ex_clean [skill_md] [roles_dir] 0"]
    by (simp add: s v lint_clean a)
qed






















end
